theory Spec2Isabelle
  imports Complex_Main
begin

section \<open>Blink Delete: the gesture detection hook and its page\<close>

text \<open>
  The development embeds the detection hook \<^verbatim>\<open>useBlinkDetection\<close> (the functions
  \<^verbatim>\<open>calculateEAR\<close>, \<^verbatim>\<open>calculateHeadTilt\<close> and the per-frame callback registered with
  \<^verbatim>\<open>faceMesh.onResults\<close>) and the part of \<^verbatim>\<open>BlinkDeletePage\<close> that consumes its events
  (\<^verbatim>\<open>handleBlink\<close>, \<^verbatim>\<open>handleTiltRight\<close>, \<^verbatim>\<open>handleTiltLeft\<close>, the calibration effect).

  JavaScript numbers that hold coordinates, ratios and angles are modelled as \<open>real\<close>
  (rounding, NaN and signed zeros are not modelled); \<^verbatim>\<open>Date.now()\<close> is an integer number
  of milliseconds and is an \<open>int\<close> parameter of the callback; frame counters are \<open>nat\<close>.
  The refs (\<^verbatim>\<open>useRef\<close>) and the React state of the hook are one record that every
  frame evaluation takes and returns; \<^verbatim>\<open>setState\<close> updaters are applied in the order
  in which they are queued.
\<close>

subsection \<open>Landmarks and geometry\<close>

text \<open>A landmark \<^verbatim>\<open>{ x, y, z }\<close>; \<^verbatim>\<open>calculateEAR\<close> reads only \<^verbatim>\<open>x\<close> and \<^verbatim>\<open>y\<close>.\<close>

record landmark =
  px :: real
  py :: real
  pz :: real

definition LEFT_EYE_INDICES :: "nat list" where
  "LEFT_EYE_INDICES = [362, 385, 387, 263, 373, 380]"

definition RIGHT_EYE_INDICES :: "nat list" where
  "RIGHT_EYE_INDICES = [33, 160, 158, 133, 153, 144]"

definition LEFT_EAR :: nat where
  "LEFT_EAR = 234"

definition RIGHT_EAR :: nat where
  "RIGHT_EAR = 454"

text \<open>
  Indexing a JavaScript array: an index past the end reads \<^verbatim>\<open>undefined\<close>, which is
  \<open>None\<close> here.
\<close>

definition js_index :: "'a list \<Rightarrow> nat \<Rightarrow> 'a option" where
  "js_index xs i = (if i < length xs then Some (xs ! i) else None)"

text \<open>
  \<^verbatim>\<open>Math.sqrt(Math.pow(a.x - b.x, 2) + Math.pow(a.y - b.y, 2))\<close>, the expression that
  \<^verbatim>\<open>calculateEAR\<close> writes three times.
\<close>

definition distance :: "landmark \<Rightarrow> landmark \<Rightarrow> real" where
  "distance a b = sqrt ((px a - px b)\<^sup>2 + (py a - py b)\<^sup>2)"

text \<open>
  \<^verbatim>\<open>calculateEAR(eyeLandmarks)\<close>. The argument is \<open>None\<close> for a null or undefined
  array (the \<^verbatim>\<open>!eyeLandmarks\<close> test). The elements are landmarks, as the parameter's
  type says; the indices 0 to 5 are read only after the length test.
\<close>

definition calculateEAR :: "landmark list option \<Rightarrow> real" where
  "calculateEAR eyeLandmarks =
     (case eyeLandmarks of
        None \<Rightarrow> 1
      | Some pts \<Rightarrow>
          if length pts < 6 then 1
          else
            let v1 = distance (pts ! 1) (pts ! 5);
                v2 = distance (pts ! 2) (pts ! 4);
                h = distance (pts ! 0) (pts ! 3)
            in if h = 0 then 1 else (v1 + v2) / (2.0 * h))"

text \<open>
  \<^verbatim>\<open>Math.atan2(y, x)\<close> on real numbers: the angle in \<open>(-\<pi>, \<pi>]\<close> of the point
  \<open>(x, y)\<close>, and 0 at the origin (ECMAScript returns +0 for \<^verbatim>\<open>atan2(+0, +0)\<close>).
\<close>

definition atan2 :: "real \<Rightarrow> real \<Rightarrow> real" where
  "atan2 y x =
     (if 0 < x then arctan (y / x)
      else if x < 0 then (if 0 \<le> y then arctan (y / x) + pi else arctan (y / x) - pi)
      else if 0 < y then pi / 2
      else if y < 0 then - (pi / 2)
      else 0)"

text \<open>\<^verbatim>\<open>calculateHeadTilt(landmarks)\<close>: the roll angle in degrees, 0 when an ear is missing.\<close>

definition calculateHeadTilt :: "landmark list \<Rightarrow> real" where
  "calculateHeadTilt landmarks =
     (case (js_index landmarks LEFT_EAR, js_index landmarks RIGHT_EAR) of
        (Some leftEar, Some rightEar) \<Rightarrow>
          let deltaY = py rightEar - py leftEar;
              deltaX = px rightEar - px leftEar
          in atan2 deltaY deltaX * (180 / pi)
      | _ \<Rightarrow> 0)"

subsection \<open>The state of the hook\<close>

datatype tilt = Neutral | TiltLeft | TiltRight

text \<open>
  The refs of \<^verbatim>\<open>useBlinkDetection\<close> that the frame callback reads and writes, followed
  by the fields of \<^verbatim>\<open>BlinkDetectionState\<close>.
\<close>

record detection_state =
  lastBlinkTimeRef :: int
  lastTiltTimeRef :: int
  isBlinkingRef :: bool
  eyeOpenSinceRef :: int
  consecutiveLowEARRef :: nat
  consecutiveTiltFramesRef :: nat
  lastTiltDirectionRef :: tilt
  hasFiredTiltRef :: bool
  wasNeutralRef :: bool
  isInitialized :: bool
  isLoading :: bool
  error :: "string option"
  blinkCount :: nat
  isBlinking :: bool
  lastBlinkTime :: int
  faceDetected :: bool
  headTilt :: tilt

text \<open>The initial values given to \<^verbatim>\<open>useRef\<close> and \<^verbatim>\<open>useState\<close>.\<close>

definition initial_state :: detection_state where
  "initial_state =
     \<lparr> lastBlinkTimeRef = 0, lastTiltTimeRef = 0, isBlinkingRef = False,
       eyeOpenSinceRef = 0, consecutiveLowEARRef = 0, consecutiveTiltFramesRef = 0,
       lastTiltDirectionRef = Neutral, hasFiredTiltRef = False, wasNeutralRef = True,
       isInitialized = False, isLoading = False, error = None, blinkCount = 0,
       isBlinking = False, lastBlinkTime = 0, faceDetected = False, headTilt = Neutral \<rparr>"

text \<open>\<^verbatim>\<open>resetBlinkCount\<close>: \<^verbatim>\<open>setState(prev => ({ ...prev, blinkCount: 0 }))\<close>.\<close>

definition resetBlinkCount :: "detection_state \<Rightarrow> detection_state" where
  "resetBlinkCount st = st\<lparr>blinkCount := 0\<rparr>"

text \<open>
  The numeric parameters of \<^verbatim>\<open>useBlinkDetection\<close>. The three callback parameters are
  the constructors of \<open>callback\<close>: a frame evaluation returns the list of callbacks it
  invokes, in order, and the caller of the hook decides what each one runs.
\<close>

record thresholds =
  blinkThreshold :: real
  debounceMs :: int
  tiltThreshold :: real
  tiltDebounceMs :: int

definition default_thresholds :: thresholds where
  "default_thresholds =
     \<lparr> blinkThreshold = 0.18, debounceMs = 500, tiltThreshold = 15, tiltDebounceMs = 600 \<rparr>"

datatype callback = OnBlink | OnTiltLeft | OnTiltRight

subsection \<open>The frame callback\<close>

text \<open>
  The section \<^verbatim>\<open>BLINK DETECTION\<close> of the callback, from the computed \<^verbatim>\<open>avgEAR\<close> on.
\<close>

definition blinkDetection ::
  "thresholds \<Rightarrow> real \<Rightarrow> int \<Rightarrow> detection_state \<Rightarrow> detection_state \<times> callback list" where
  "blinkDetection cfg avgEAR now st =
     (let isCurrentlyBlinking = avgEAR < blinkThreshold cfg;
          st1 = (if isCurrentlyBlinking
                 then st\<lparr>consecutiveLowEARRef := consecutiveLowEARRef st + 1\<rparr>
                 else if eyeOpenSinceRef st = 0
                      then st\<lparr>consecutiveLowEARRef := 0, eyeOpenSinceRef := now\<rparr>
                      else st\<lparr>consecutiveLowEARRef := 0\<rparr>);
          isConfirmedBlink = (2 \<le> consecutiveLowEARRef st1);
          eyesWereOpenLongEnough = (150 < now - eyeOpenSinceRef st1);
          fire = (isConfirmedBlink \<and> \<not> isBlinkingRef st1 \<and>
                  debounceMs cfg < now - lastBlinkTimeRef st1 \<and> eyesWereOpenLongEnough);
          st2 = (if fire
                 then st1\<lparr>lastBlinkTimeRef := now, eyeOpenSinceRef := 0,
                          blinkCount := blinkCount st1 + 1, isBlinking := True,
                          lastBlinkTime := now\<rparr>
                 else st1);
          st3 = (if \<not> isCurrentlyBlinking \<and> isBlinkingRef st2
                 then st2\<lparr>isBlinking := False\<rparr> else st2)
      in (st3\<lparr>isBlinkingRef := isConfirmedBlink\<rparr>, if fire then [OnBlink] else []))"

text \<open>The mapping of the angle to \<^verbatim>\<open>detectedTilt\<close>.\<close>

definition detectTilt :: "thresholds \<Rightarrow> real \<Rightarrow> tilt" where
  "detectTilt cfg tiltAngle =
     (if tiltThreshold cfg < tiltAngle then TiltRight
      else if tiltAngle < - tiltThreshold cfg then TiltLeft
      else Neutral)"

text \<open>
  The section \<^verbatim>\<open>HEAD TILT DETECTION\<close> of the callback, from the computed
  \<^verbatim>\<open>tiltAngle\<close> on.
\<close>

definition headTiltDetection ::
  "thresholds \<Rightarrow> real \<Rightarrow> int \<Rightarrow> detection_state \<Rightarrow> detection_state \<times> callback list" where
  "headTiltDetection cfg tiltAngle now st =
     (let detectedTilt = detectTilt cfg tiltAngle;
          st1 = (if detectedTilt = lastTiltDirectionRef st \<and> detectedTilt \<noteq> Neutral
                 then st\<lparr>consecutiveTiltFramesRef := consecutiveTiltFramesRef st + 1\<rparr>
                 else st\<lparr>consecutiveTiltFramesRef := 0\<rparr>);
          st2 = st1\<lparr>lastTiltDirectionRef := detectedTilt\<rparr>;
          isConfirmedTilt = (3 \<le> consecutiveTiltFramesRef st2);
          st3 = (if isConfirmedTilt \<and> detectedTilt \<noteq> Neutral
                 then st2\<lparr>headTilt := detectedTilt\<rparr> else st2);
          fire = (isConfirmedTilt \<and> detectedTilt \<noteq> Neutral \<and> \<not> hasFiredTiltRef st3 \<and>
                  wasNeutralRef st3 \<and> tiltDebounceMs cfg < now - lastTiltTimeRef st3);
          st4 = (if fire
                 then st3\<lparr>lastTiltTimeRef := now, hasFiredTiltRef := True,
                          wasNeutralRef := False\<rparr>
                 else st3);
          st5 = (if detectedTilt = Neutral
                 then (if \<not> wasNeutralRef st4
                       then st4\<lparr>wasNeutralRef := True, hasFiredTiltRef := False,
                                headTilt := Neutral\<rparr>
                       else st4\<lparr>headTilt := Neutral\<rparr>)
                 else st4)
      in (st5,
          if fire then (if detectedTilt = TiltLeft then [OnTiltLeft] else [OnTiltRight])
          else []))"

text \<open>
  Both sections on one frame whose openness and angle are known: the blink section runs
  first, so its callback comes first.
\<close>

definition classify ::
  "thresholds \<Rightarrow> real \<Rightarrow> real \<Rightarrow> int \<Rightarrow> detection_state \<Rightarrow> detection_state \<times> callback list" where
  "classify cfg avgEAR tiltAngle now st =
     (let (st1, blinks) = blinkDetection cfg avgEAR now st;
          (st2, tilts) = headTiltDetection cfg tiltAngle now st1
      in (st2, blinks @ tilts))"

text \<open>
  \<^verbatim>\<open>INDICES.map(i => landmarks[i])\<close>: \<open>None\<close> when one of the six entries is
  \<^verbatim>\<open>undefined\<close>, in which case \<^verbatim>\<open>calculateEAR\<close> (whose array has length 6) reads a
  property of \<^verbatim>\<open>undefined\<close> and throws.
\<close>

definition eyeLandmarks :: "nat list \<Rightarrow> landmark list \<Rightarrow> landmark list option" where
  "eyeLandmarks indices landmarks =
     (if list_all (\<lambda>i. i < length landmarks) indices
      then Some (map (\<lambda>i. landmarks ! i) indices) else None)"

datatype js_error = TypeError

text \<open>
  The outcome of one call of the callback: it returns, with the new state and the
  callbacks it invoked, or it throws, leaving the state as it was at the throw.
\<close>

datatype outcome = Returned detection_state "callback list" | Thrown js_error detection_state

text \<open>
  The callback registered with \<^verbatim>\<open>faceMesh.onResults\<close>. \<open>multiFaceLandmarks\<close> is
  the field of \<^verbatim>\<open>results\<close> (\<open>None\<close> when it is missing), \<open>now\<close> the value of
  \<^verbatim>\<open>Date.now()\<close>. The drawing on the hidden canvas changes no state and is left out.
\<close>

definition onResults ::
  "thresholds \<Rightarrow> landmark list list option \<Rightarrow> int \<Rightarrow> detection_state \<Rightarrow> outcome" where
  "onResults cfg multiFaceLandmarks now st =
     (case multiFaceLandmarks of
        None \<Rightarrow> Returned (st\<lparr>faceDetected := False\<rparr>) []
      | Some [] \<Rightarrow> Returned (st\<lparr>faceDetected := False\<rparr>) []
      | Some (landmarks # _) \<Rightarrow>
          let st1 = st\<lparr>faceDetected := True\<rparr> in
          (case (eyeLandmarks LEFT_EYE_INDICES landmarks,
                 eyeLandmarks RIGHT_EYE_INDICES landmarks) of
             (Some leftEye, Some rightEye) \<Rightarrow>
               let leftEAR = calculateEAR (Some leftEye);
                   rightEAR = calculateEAR (Some rightEye);
                   avgEAR = (leftEAR + rightEAR) / 2;
                   (st2, called) = classify cfg avgEAR (calculateHeadTilt landmarks) now st1
               in Returned st2 called
           | _ \<Rightarrow> Thrown TypeError st1))"

text \<open>
  A run of the classifier over frames given by their openness, angle and time: the
  callbacks invoked on each frame, frame by frame, and the state after the last frame.
\<close>

type_synonym sample = "real \<times> real \<times> int"

fun run :: "thresholds \<Rightarrow> sample list \<Rightarrow> detection_state \<Rightarrow> callback list list" where
  "run cfg [] st = []"
| "run cfg ((avgEAR, tiltAngle, now) # frames) st =
     snd (classify cfg avgEAR tiltAngle now st)
       # run cfg frames (fst (classify cfg avgEAR tiltAngle now st))"

fun final :: "thresholds \<Rightarrow> sample list \<Rightarrow> detection_state \<Rightarrow> detection_state" where
  "final cfg [] st = st"
| "final cfg ((avgEAR, tiltAngle, now) # frames) st =
     final cfg frames (fst (classify cfg avgEAR tiltAngle now st))"

subsection \<open>The page that uses the hook\<close>

datatype app_state = Hero | Demo | Upload | Review | Results

text \<open>A \<^verbatim>\<open>PhotoItem\<close> without its \<^verbatim>\<open>File\<close>, which no handler below reads.\<close>

record PhotoItem =
  photo_id :: string
  url :: string
  marked :: bool
  originalName :: string

text \<open>
  The state of \<^verbatim>\<open>BlinkDeletePage\<close> that the gesture handlers and the calibration
  effect read or write, its four mirror refs, and the state of the hook it mounts.
\<close>

record page_state =
  appState :: app_state
  photos :: "PhotoItem list"
  currentIndex :: int
  isCalibrating :: bool
  calibrationBlinks :: nat
  showFlash :: bool
  showTiltFlash :: "tilt option"
  isCalibrationRef :: bool
  appStateRef :: app_state
  currentIndexRef :: int
  photosLengthRef :: int
  detection :: detection_state

text \<open>
  \<^verbatim>\<open>handleBlink\<close>. The vibration and the timer that clears the flash 200 ms later are
  left out.
\<close>

definition handleBlink :: "page_state \<Rightarrow> page_state" where
  "handleBlink p =
     (if isCalibrationRef p then p\<lparr>calibrationBlinks := calibrationBlinks p + 1\<rparr>
      else
        let p1 = p\<lparr>showFlash := True\<rparr>;
            state = appStateRef p1;
            idx = currentIndexRef p1;
            len = photosLengthRef p1
        in if (state = Review \<or> state = Demo) \<and> idx < len
           then p1\<lparr>photos :=
                  map (\<lambda>(i, ph). if int i = idx then ph\<lparr>marked := \<not> marked ph\<rparr> else ph)
                    (enumerate 0 (photos p1))\<rparr>
           else p1)"

text \<open>\<^verbatim>\<open>handleTiltRight\<close>: advance to the next photo, or to the results after the last.\<close>

definition handleTiltRight :: "page_state \<Rightarrow> page_state" where
  "handleTiltRight p =
     (if isCalibrationRef p then p
      else
        let p1 = p\<lparr>showTiltFlash := Some TiltRight\<rparr>;
            idx = currentIndexRef p1;
            len = photosLengthRef p1
        in if idx < len - 1 then p1\<lparr>currentIndex := currentIndex p1 + 1\<rparr>
           else if idx = len - 1 then p1\<lparr>appState := Results\<rparr>
           else p1)"

text \<open>\<^verbatim>\<open>handleTiltLeft\<close>: go to the previous photo.\<close>

definition handleTiltLeft :: "page_state \<Rightarrow> page_state" where
  "handleTiltLeft p =
     (if isCalibrationRef p then p
      else
        let p1 = p\<lparr>showTiltFlash := Some TiltLeft\<rparr>;
            idx = currentIndexRef p1
        in if 0 < idx then p1\<lparr>currentIndex := currentIndex p1 - 1\<rparr> else p1)"

text \<open>
  The parameter list of \<^verbatim>\<open>useBlinkDetection\<close>, in its order: the numeric parameters
  go to the thresholds, the optional callbacks to the record below.
\<close>

record callbacks =
  onBlink :: "(page_state \<Rightarrow> page_state) option"
  onTiltLeft :: "(page_state \<Rightarrow> page_state) option"
  onTiltRight :: "(page_state \<Rightarrow> page_state) option"

definition useBlinkDetection ::
  "(page_state \<Rightarrow> page_state) option \<Rightarrow> real \<Rightarrow> int \<Rightarrow>
   (page_state \<Rightarrow> page_state) option \<Rightarrow> (page_state \<Rightarrow> page_state) option \<Rightarrow>
   real \<Rightarrow> int \<Rightarrow> thresholds \<times> callbacks" where
  "useBlinkDetection on_blink blink_threshold debounce_ms on_tilt_left on_tilt_right
     tilt_threshold tilt_debounce_ms =
     (\<lparr> blinkThreshold = blink_threshold, debounceMs = debounce_ms,
        tiltThreshold = tilt_threshold, tiltDebounceMs = tilt_debounce_ms \<rparr>,
      \<lparr> onBlink = on_blink, onTiltLeft = on_tilt_left, onTiltRight = on_tilt_right \<rparr>)"

text \<open>
  The call in \<^verbatim>\<open>BlinkDeletePage\<close>:
  \<^verbatim>\<open>useBlinkDetection(handleBlink, 0.18, 500, handleTiltRight, handleTiltLeft, 15, 600)\<close>.
\<close>

definition page_hook :: "thresholds \<times> callbacks" where
  "page_hook =
     useBlinkDetection (Some handleBlink) 0.18 500 (Some handleTiltRight)
       (Some handleTiltLeft) 15 600"

text \<open>An optional call \<^verbatim>\<open>f?.()\<close>.\<close>

definition optional_call ::
  "(page_state \<Rightarrow> page_state) option \<Rightarrow> page_state \<Rightarrow> page_state" where
  "optional_call f p = (case f of None \<Rightarrow> p | Some g \<Rightarrow> g p)"

text \<open>What a callback invoked by the frame callback runs.\<close>

fun invoke :: "callbacks \<Rightarrow> callback \<Rightarrow> page_state \<Rightarrow> page_state" where
  "invoke cbs OnBlink p = optional_call (onBlink cbs) p"
| "invoke cbs OnTiltLeft p = optional_call (onTiltLeft cbs) p"
| "invoke cbs OnTiltRight p = optional_call (onTiltRight cbs) p"

text \<open>
  The effects of the page that follow a render. The four mirror effects copy the state
  into the refs; the calibration effect ends the calibration. They run in the order of
  their declaration. The effect that stops the detection on the results screen is left
  out.
\<close>

definition mirror_refs :: "page_state \<Rightarrow> page_state" where
  "mirror_refs p =
     p\<lparr>isCalibrationRef := isCalibrating p, appStateRef := appState p,
       currentIndexRef := currentIndex p, photosLengthRef := int (length (photos p))\<rparr>"

definition calibration_effect :: "page_state \<Rightarrow> page_state" where
  "calibration_effect p =
     (if 3 \<le> calibrationBlinks p \<and> isCalibrating p
      then p\<lparr>isCalibrating := False, calibrationBlinks := 0,
             detection := resetBlinkCount (detection p)\<rparr>
      else p)"

definition run_effects :: "page_state \<Rightarrow> page_state" where
  "run_effects p = calibration_effect (mirror_refs p)"

text \<open>
  A state change made by an effect causes another render, whose effects see the new
  state; after the second round nothing changes any more (lemma \<open>render_settled\<close>).
\<close>

definition render :: "page_state \<Rightarrow> page_state" where
  "render p = run_effects (run_effects p)"

text \<open>
  One frame delivered to the page: the frame callback runs on the hook's state, the
  callbacks it invokes run in order, and the page renders.
\<close>

definition deliver :: "thresholds \<times> callbacks \<Rightarrow> sample \<Rightarrow> page_state \<Rightarrow> page_state" where
  "deliver hook frame p =
     (case frame of (avgEAR, tiltAngle, now) \<Rightarrow>
        let (st, called) = classify (fst hook) avgEAR tiltAngle now (detection p);
            p1 = p\<lparr>detection := st\<rparr>
        in render (fold (invoke (snd hook)) called p1))"

fun deliver_all :: "thresholds \<times> callbacks \<Rightarrow> sample list \<Rightarrow> page_state \<Rightarrow> page_state" where
  "deliver_all hook [] p = p"
| "deliver_all hook (frame # frames) p = deliver_all hook frames (deliver hook frame p)"

text \<open>
  The page when its first review or demo session starts (\<^verbatim>\<open>handleStartDemo\<close>,
  \<^verbatim>\<open>handleFileUpload\<close>): the first photo is shown, calibration is active with no blink
  counted, and the hook is in its initial state.
\<close>

definition session_start :: "app_state \<Rightarrow> PhotoItem list \<Rightarrow> page_state" where
  "session_start mode items =
     \<lparr> appState = mode, photos = items, currentIndex = 0, isCalibrating = True,
       calibrationBlinks = 0, showFlash = False, showTiltFlash = None,
       isCalibrationRef = True, appStateRef = mode, currentIndexRef = 0,
       photosLengthRef = int (length items), detection = initial_state \<rparr>"

subsection \<open>The firing conditions, on the state before the frame\<close>

text \<open>
  The guard of the blink section in terms of the state before the frame (lemma
  \<open>blinkDetection_snd\<close>): the frame is low, it is at least the second low frame in a
  row, the previous frame was not a confirmed blink, and the two time tests hold.
\<close>

definition blink_fires :: "thresholds \<Rightarrow> real \<Rightarrow> int \<Rightarrow> detection_state \<Rightarrow> bool" where
  "blink_fires cfg avgEAR now st \<longleftrightarrow>
     avgEAR < blinkThreshold cfg \<and> 1 \<le> consecutiveLowEARRef st \<and> \<not> isBlinkingRef st \<and>
     debounceMs cfg < now - lastBlinkTimeRef st \<and> 150 < now - eyeOpenSinceRef st"

text \<open>The guard of the tilt section in the same way (lemma \<open>headTiltDetection_snd\<close>).\<close>

definition tilt_fires :: "thresholds \<Rightarrow> real \<Rightarrow> int \<Rightarrow> detection_state \<Rightarrow> bool" where
  "tilt_fires cfg tiltAngle now st \<longleftrightarrow>
     detectTilt cfg tiltAngle \<noteq> Neutral \<and> detectTilt cfg tiltAngle = lastTiltDirectionRef st \<and>
     2 \<le> consecutiveTiltFramesRef st \<and> \<not> hasFiredTiltRef st \<and> wasNeutralRef st \<and>
     tiltDebounceMs cfg < now - lastTiltTimeRef st"

definition blink_callbacks :: "callback list \<Rightarrow> callback list" where
  "blink_callbacks called = filter (\<lambda>c. c = OnBlink) called"

definition tilt_callbacks :: "callback list \<Rightarrow> callback list" where
  "tilt_callbacks called = filter (\<lambda>c. c = OnTiltLeft \<or> c = OnTiltRight) called"

subsection \<open>Concrete inputs\<close>

text \<open>
  The hook's state after an open frame at time 1000 and one low frame: the open-since
  marker is set, one low frame is counted, and no blink is confirmed.
\<close>

definition one_low_frame_seen :: detection_state where
  "one_low_frame_seen = initial_state\<lparr>eyeOpenSinceRef := 1000, consecutiveLowEARRef := 1\<rparr>"

text \<open>Twenty frames at 20 degrees, 50 ms apart, with open eyes.\<close>

definition sustained_right_tilt :: "sample list" where
  "sustained_right_tilt =
     [(0.3, 20, 1000), (0.3, 20, 1050), (0.3, 20, 1100), (0.3, 20, 1150), (0.3, 20, 1200),
      (0.3, 20, 1250), (0.3, 20, 1300), (0.3, 20, 1350), (0.3, 20, 1400), (0.3, 20, 1450),
      (0.3, 20, 1500), (0.3, 20, 1550), (0.3, 20, 1600), (0.3, 20, 1650), (0.3, 20, 1700),
      (0.3, 20, 1750), (0.3, 20, 1800), (0.3, 20, 1850), (0.3, 20, 1900), (0.3, 20, 1950)]"

text \<open>The hook's state after three frames at 20 degrees, and at -20 degrees.\<close>

definition right_tilt_held :: detection_state where
  "right_tilt_held =
     final default_thresholds [(0.3, 20, 1000), (0.3, 20, 1050), (0.3, 20, 1100)]
       initial_state"

definition left_tilt_held :: detection_state where
  "left_tilt_held =
     final default_thresholds [(0.3, -20, 1000), (0.3, -20, 1050), (0.3, -20, 1100)]
       initial_state"

text \<open>Landmarks in the image plane, an eye of width 2 and height 1, and a face mesh of
  478 landmarks at the origin except for its two ears.\<close>

definition landmark_at :: "real \<Rightarrow> real \<Rightarrow> landmark" where
  "landmark_at a b = \<lparr> px = a, py = b, pz = 0 \<rparr>"

definition open_eye :: "landmark list" where
  "open_eye =
     [landmark_at 0 0, landmark_at 1 1, landmark_at 1 1,
      landmark_at 2 0, landmark_at 1 0, landmark_at 1 0]"

definition face_with_ears :: "landmark \<Rightarrow> landmark \<Rightarrow> landmark list" where
  "face_with_ears leftEar rightEar =
     (replicate 478 (landmark_at 0 0))[LEFT_EAR := leftEar, RIGHT_EAR := rightEar]"

text \<open>
  A review of five photos after calibration, showing the second photo, with the hook in
  a given state.
\<close>

definition sample_photo :: PhotoItem where
  "sample_photo = \<lparr> photo_id = ''demo-0'', url = ''sample.jpg'', marked = False,
     originalName = ''sample-1.jpg'' \<rparr>"

definition reviewing :: "detection_state \<Rightarrow> page_state" where
  "reviewing st =
     (session_start Review (replicate 5 sample_photo))
       \<lparr>currentIndex := 1, isCalibrating := False, isCalibrationRef := False,
        currentIndexRef := 1, detection := st\<rparr>"

text \<open>
  Frames of a calibration: two blinks (open, low, low), then an open and a low frame.
  The page they lead to from the start of a session (lemma \<open>two_blinks_counted_reached\<close>)
  has counted two blinks and has seen the first low frame of a third.
\<close>

definition calibration_frames :: "sample list" where
  "calibration_frames =
     [(0.3, 0, 1000), (0.05, 0, 1200), (0.05, 0, 1400),
      (0.3, 0, 1600), (0.05, 0, 1800), (0.05, 0, 2000),
      (0.3, 0, 2200), (0.05, 0, 2400)]"

definition two_blinks_counted :: page_state where
  "two_blinks_counted =
     (session_start Demo [])
       \<lparr>calibrationBlinks := 2,
        detection := initial_state
          \<lparr>lastBlinkTimeRef := 2000, eyeOpenSinceRef := 2200, consecutiveLowEARRef := 1,
           blinkCount := 2, lastBlinkTime := 2000\<rparr>\<rparr>"

text \<open>A session that has just started, after an open frame at 1000 and one low frame.\<close>

definition first_blink_pending :: page_state where
  "first_blink_pending = (session_start Demo [])\<lparr>detection := one_low_frame_seen\<rparr>"

subsection \<open>What one frame does to the refs\<close>

text \<open>The blink section leaves the tilt refs alone, and the tilt section the blink refs.\<close>

lemma blinkDetection_tilt_fields:
  "lastTiltTimeRef (fst (blinkDetection cfg e now st)) = lastTiltTimeRef st"
  "consecutiveTiltFramesRef (fst (blinkDetection cfg e now st)) = consecutiveTiltFramesRef st"
  "lastTiltDirectionRef (fst (blinkDetection cfg e now st)) = lastTiltDirectionRef st"
  "hasFiredTiltRef (fst (blinkDetection cfg e now st)) = hasFiredTiltRef st"
  "wasNeutralRef (fst (blinkDetection cfg e now st)) = wasNeutralRef st"
  by (simp_all add: blinkDetection_def Let_def)

lemma headTiltDetection_blink_fields:
  "lastBlinkTimeRef (fst (headTiltDetection cfg a now st)) = lastBlinkTimeRef st"
  "isBlinkingRef (fst (headTiltDetection cfg a now st)) = isBlinkingRef st"
  "eyeOpenSinceRef (fst (headTiltDetection cfg a now st)) = eyeOpenSinceRef st"
  "consecutiveLowEARRef (fst (headTiltDetection cfg a now st)) = consecutiveLowEARRef st"
  "blinkCount (fst (headTiltDetection cfg a now st)) = blinkCount st"
  by (simp_all add: headTiltDetection_def Let_def)

lemma classify_fst:
  "fst (classify cfg e a now st) =
     fst (headTiltDetection cfg a now (fst (blinkDetection cfg e now st)))"
  by (simp add: classify_def split: prod.splits)

lemma classify_snd:
  "snd (classify cfg e a now st) =
     snd (blinkDetection cfg e now st) @
     snd (headTiltDetection cfg a now (fst (blinkDetection cfg e now st)))"
  by (simp add: classify_def split: prod.splits)

text \<open>The callbacks of each section, by the guards on the state before the frame.\<close>

lemma blinkDetection_snd:
  "snd (blinkDetection cfg e now st) = (if blink_fires cfg e now st then [OnBlink] else [])"
  by (auto simp add: blinkDetection_def Let_def blink_fires_def)

lemma headTiltDetection_snd:
  "snd (headTiltDetection cfg a now st) =
     (if tilt_fires cfg a now st
      then (if detectTilt cfg a = TiltLeft then [OnTiltLeft] else [OnTiltRight]) else [])"
  unfolding headTiltDetection_def tilt_fires_def Let_def
  by (cases "detectTilt cfg a") simp_all

lemma tilt_fires_after_blink:
  "tilt_fires cfg a now (fst (blinkDetection cfg e now' st)) = tilt_fires cfg a now st"
  by (simp add: tilt_fires_def blinkDetection_tilt_fields)

lemma blink_callbacks_classify:
  "blink_callbacks (snd (classify cfg e a now st)) =
     (if blink_fires cfg e now st then [OnBlink] else [])"
  by (simp add: classify_snd blinkDetection_snd headTiltDetection_snd blink_callbacks_def)

lemma tilt_callbacks_classify:
  "tilt_callbacks (snd (classify cfg e a now st)) =
     (if tilt_fires cfg a now st
      then (if detectTilt cfg a = TiltLeft then [OnTiltLeft] else [OnTiltRight]) else [])"
  by (simp add: classify_snd blinkDetection_snd headTiltDetection_snd tilt_callbacks_def
      tilt_fires_after_blink)

text \<open>The refs after the frame.\<close>

lemma blinkDetection_fields:
  "consecutiveLowEARRef (fst (blinkDetection cfg e now st)) =
     (if e < blinkThreshold cfg then consecutiveLowEARRef st + 1 else 0)"
  "isBlinkingRef (fst (blinkDetection cfg e now st)) =
     (e < blinkThreshold cfg \<and> 1 \<le> consecutiveLowEARRef st)"
  "lastBlinkTimeRef (fst (blinkDetection cfg e now st)) =
     (if blink_fires cfg e now st then now else lastBlinkTimeRef st)"
  "eyeOpenSinceRef (fst (blinkDetection cfg e now st)) =
     (if e < blinkThreshold cfg
      then (if blink_fires cfg e now st then 0 else eyeOpenSinceRef st)
      else if eyeOpenSinceRef st = 0 then now else eyeOpenSinceRef st)"
  "blinkCount (fst (blinkDetection cfg e now st)) =
     (if blink_fires cfg e now st then blinkCount st + 1 else blinkCount st)"
  by (auto simp add: blinkDetection_def Let_def blink_fires_def)

lemma headTiltDetection_fields:
  "consecutiveTiltFramesRef (fst (headTiltDetection cfg a now st)) =
     (if detectTilt cfg a = lastTiltDirectionRef st \<and> detectTilt cfg a \<noteq> Neutral
      then consecutiveTiltFramesRef st + 1 else 0)"
  "lastTiltDirectionRef (fst (headTiltDetection cfg a now st)) = detectTilt cfg a"
  "lastTiltTimeRef (fst (headTiltDetection cfg a now st)) =
     (if tilt_fires cfg a now st then now else lastTiltTimeRef st)"
  "wasNeutralRef (fst (headTiltDetection cfg a now st)) =
     (if detectTilt cfg a = Neutral then True
      else if tilt_fires cfg a now st then False else wasNeutralRef st)"
  "hasFiredTiltRef (fst (headTiltDetection cfg a now st)) =
     (if detectTilt cfg a = Neutral then (wasNeutralRef st \<and> hasFiredTiltRef st)
      else (tilt_fires cfg a now st \<or> hasFiredTiltRef st))"
  by (auto simp add: headTiltDetection_def Let_def tilt_fires_def)

lemma blink_fields_classify:
  "consecutiveLowEARRef (fst (classify cfg e a now st)) =
     (if e < blinkThreshold cfg then consecutiveLowEARRef st + 1 else 0)"
  "isBlinkingRef (fst (classify cfg e a now st)) =
     (e < blinkThreshold cfg \<and> 1 \<le> consecutiveLowEARRef st)"
  "lastBlinkTimeRef (fst (classify cfg e a now st)) =
     (if blink_fires cfg e now st then now else lastBlinkTimeRef st)"
  "eyeOpenSinceRef (fst (classify cfg e a now st)) =
     (if e < blinkThreshold cfg
      then (if blink_fires cfg e now st then 0 else eyeOpenSinceRef st)
      else if eyeOpenSinceRef st = 0 then now else eyeOpenSinceRef st)"
  "blinkCount (fst (classify cfg e a now st)) =
     (if blink_fires cfg e now st then blinkCount st + 1 else blinkCount st)"
  by (simp_all only: classify_fst headTiltDetection_blink_fields blinkDetection_fields)

lemma tilt_fields_classify:
  "consecutiveTiltFramesRef (fst (classify cfg e a now st)) =
     (if detectTilt cfg a = lastTiltDirectionRef st \<and> detectTilt cfg a \<noteq> Neutral
      then consecutiveTiltFramesRef st + 1 else 0)"
  "lastTiltDirectionRef (fst (classify cfg e a now st)) = detectTilt cfg a"
  "lastTiltTimeRef (fst (classify cfg e a now st)) =
     (if tilt_fires cfg a now st then now else lastTiltTimeRef st)"
  "wasNeutralRef (fst (classify cfg e a now st)) =
     (if detectTilt cfg a = Neutral then True
      else if tilt_fires cfg a now st then False else wasNeutralRef st)"
  "hasFiredTiltRef (fst (classify cfg e a now st)) =
     (if detectTilt cfg a = Neutral then (wasNeutralRef st \<and> hasFiredTiltRef st)
      else (tilt_fires cfg a now st \<or> hasFiredTiltRef st))"
  by (simp_all only: classify_fst headTiltDetection_fields tilt_fires_after_blink
      blinkDetection_tilt_fields)

lemma run_append:
  "run cfg (xs @ ys) st = run cfg xs st @ run cfg ys (final cfg xs st)"
  by (induction xs arbitrary: st) auto

lemma final_append:
  "final cfg (xs @ ys) st = final cfg ys (final cfg xs st)"
  by (induction xs arbitrary: st) auto

lemma tilt_callbacks_append:
  "tilt_callbacks (xs @ ys) = tilt_callbacks xs @ tilt_callbacks ys"
  by (simp add: tilt_callbacks_def)

text \<open>The definitions that evaluate one frame on a concrete state.\<close>

lemmas frame_eval =
  classify_def blinkDetection_def headTiltDetection_def detectTilt_def Let_def
  default_thresholds_def

subsection \<open>Frames without a face\<close>

text \<open>
  C10. On a frame without face landmarks (the field missing, or an empty list of faces)
  the callback returns at once: no callback is invoked and the state is the one before
  the frame with \<open>faceDetected\<close> set to false. Every ref and every other field is
  unchanged.
\<close>

theorem onResults_no_face:
  "onResults cfg None now st = Returned (st\<lparr>faceDetected := False\<rparr>) [] \<and>
   onResults cfg (Some []) now st = Returned (st\<lparr>faceDetected := False\<rparr>) []"
  by (simp add: onResults_def)

text \<open>
  On a frame with a face whose six landmarks of each eye exist, the callback sets
  \<open>faceDetected\<close> and is \<open>classify\<close> on the mean of the two eye ratios and the head
  angle. A mesh of at least 388 landmarks has them all, so the callback returns.
\<close>

lemma onResults_face:
  assumes "eyeLandmarks LEFT_EYE_INDICES landmarks = Some leftEye"
    and "eyeLandmarks RIGHT_EYE_INDICES landmarks = Some rightEye"
  shows "onResults cfg (Some (landmarks # others)) now st =
           Returned
             (fst (classify cfg ((calculateEAR (Some leftEye) + calculateEAR (Some rightEye)) / 2)
                (calculateHeadTilt landmarks) now (st\<lparr>faceDetected := True\<rparr>)))
             (snd (classify cfg ((calculateEAR (Some leftEye) + calculateEAR (Some rightEye)) / 2)
                (calculateHeadTilt landmarks) now (st\<lparr>faceDetected := True\<rparr>)))"
  using assms by (simp add: onResults_def Let_def split: prod.splits)

lemma onResults_full_mesh:
  assumes "388 \<le> length landmarks"
  shows "\<exists>st' called. onResults cfg (Some (landmarks # others)) now st = Returned st' called"
proof -
  have "eyeLandmarks LEFT_EYE_INDICES landmarks \<noteq> None"
    "eyeLandmarks RIGHT_EYE_INDICES landmarks \<noteq> None"
    using assms by (simp_all add: eyeLandmarks_def LEFT_EYE_INDICES_def RIGHT_EYE_INDICES_def)
  then obtain l r where "eyeLandmarks LEFT_EYE_INDICES landmarks = Some l"
    "eyeLandmarks RIGHT_EYE_INDICES landmarks = Some r"
    by auto
  then show ?thesis
    by (simp add: onResults_face)
qed

subsection \<open>The eye ratio and the head angle\<close>

text \<open>
  C8. \<open>calculateEAR\<close> is 1 for a missing array, for fewer than six points, and when the
  distance between the points 0 and 3 is zero; otherwise it is the sum of the distances
  between the points 1 and 5 and between the points 2 and 4, divided by twice the
  distance between the points 0 and 3. The function is total: no input makes it fail.
\<close>

theorem calculateEAR_contract:
  "calculateEAR None = 1 \<and>
   (length pts < 6 \<longrightarrow> calculateEAR (Some pts) = 1) \<and>
   (6 \<le> length pts \<and>
    sqrt ((px (pts ! 0) - px (pts ! 3))\<^sup>2 + (py (pts ! 0) - py (pts ! 3))\<^sup>2) = 0 \<longrightarrow>
      calculateEAR (Some pts) = 1) \<and>
   (6 \<le> length pts \<and>
    sqrt ((px (pts ! 0) - px (pts ! 3))\<^sup>2 + (py (pts ! 0) - py (pts ! 3))\<^sup>2) \<noteq> 0 \<longrightarrow>
      calculateEAR (Some pts) =
        (sqrt ((px (pts ! 1) - px (pts ! 5))\<^sup>2 + (py (pts ! 1) - py (pts ! 5))\<^sup>2) +
         sqrt ((px (pts ! 2) - px (pts ! 4))\<^sup>2 + (py (pts ! 2) - py (pts ! 4))\<^sup>2)) /
        (2 * sqrt ((px (pts ! 0) - px (pts ! 3))\<^sup>2 + (py (pts ! 0) - py (pts ! 3))\<^sup>2)))"
  by (simp add: calculateEAR_def distance_def Let_def)

theorem calculateEAR_contract_witness:
  "calculateEAR (Some open_eye) = 1 / 2 \<and>
   calculateEAR (Some (replicate 6 (landmark_at 0 0))) = 1 \<and>
   calculateEAR (Some (take 5 open_eye)) = 1"
  using calculateEAR_contract [of open_eye]
    calculateEAR_contract [of "replicate 6 (landmark_at 0 0)"]
    calculateEAR_contract [of "take 5 open_eye"]
  by (simp add: open_eye_def landmark_at_def)

lemma calculateEAR_nonneg: "0 \<le> calculateEAR eye"
  by (simp add: calculateEAR_def distance_def Let_def split: option.splits)

text \<open>The angle of \<open>atan2\<close> is 0 exactly on the non-negative x axis.\<close>

lemma atan2_zero_iff: "atan2 y x = 0 \<longleftrightarrow> y = 0 \<and> 0 \<le> x"
proof -
  have b: "- (pi / 2) < arctan (y / x)" "arctan (y / x) < pi / 2"
    by (rule arctan_lbound, rule arctan_ubound)
  have p: "0 < pi" by simp
  show ?thesis
    using b p by (auto simp: atan2_def)
qed

lemma calculateHeadTilt_ears:
  "js_index landmarks LEFT_EAR = Some leftEar \<Longrightarrow>
   js_index landmarks RIGHT_EAR = Some rightEar \<Longrightarrow>
   calculateHeadTilt landmarks =
     atan2 (py rightEar - py leftEar) (px rightEar - px leftEar) * (180 / pi)"
  by (simp add: calculateHeadTilt_def Let_def)

lemma face_with_ears_index:
  "js_index (face_with_ears leftEar rightEar) LEFT_EAR = Some leftEar"
  "js_index (face_with_ears leftEar rightEar) RIGHT_EAR = Some rightEar"
  by (simp_all add: face_with_ears_def js_index_def LEFT_EAR_def RIGHT_EAR_def)

text \<open>
  C9, as the claim states it: with the right ear straight below the left ear in the
  image (\<open>y\<close> grows downwards), the horizontal delta is zero and the angle is 90 degrees,
  not 0.
\<close>

theorem head_tilt_vertical_ears:
  "px (landmark_at 0 1) - px (landmark_at 0 0) = 0 \<and>
   calculateHeadTilt (face_with_ears (landmark_at 0 0) (landmark_at 0 1)) = 90"
  by (simp add: calculateHeadTilt_ears [OF face_with_ears_index] landmark_at_def atan2_def)

text \<open>With a zero vertical delta and the ears in reversed order the angle is 180.\<close>

lemma head_tilt_reversed_ears:
  "py (landmark_at 0 0) - py (landmark_at 1 0) = 0 \<and>
   calculateHeadTilt (face_with_ears (landmark_at 1 0) (landmark_at 0 0)) = 180"
  by (simp add: calculateHeadTilt_ears [OF face_with_ears_index] landmark_at_def atan2_def)

text \<open>
  C9, amended: \<open>calculateHeadTilt\<close> is 0 when an ear landmark is absent, and when the
  vertical delta between the ears is zero and the horizontal delta is not negative, in
  particular when both deltas are zero.
\<close>

theorem head_tilt_zero:
  "(js_index landmarks LEFT_EAR = None \<or> js_index landmarks RIGHT_EAR = None \<longrightarrow>
      calculateHeadTilt landmarks = 0) \<and>
   (\<forall>leftEar rightEar.
      js_index landmarks LEFT_EAR = Some leftEar \<and>
      js_index landmarks RIGHT_EAR = Some rightEar \<and>
      py rightEar - py leftEar = 0 \<and> 0 \<le> px rightEar - px leftEar \<longrightarrow>
      calculateHeadTilt landmarks = 0)"
proof (intro conjI impI allI)
  assume "js_index landmarks LEFT_EAR = None \<or> js_index landmarks RIGHT_EAR = None"
  then show "calculateHeadTilt landmarks = 0"
    by (auto simp add: calculateHeadTilt_def split: option.splits)
next
  fix leftEar rightEar
  assume h: "js_index landmarks LEFT_EAR = Some leftEar \<and>
      js_index landmarks RIGHT_EAR = Some rightEar \<and>
      py rightEar - py leftEar = 0 \<and> 0 \<le> px rightEar - px leftEar"
  then have "atan2 (py rightEar - py leftEar) (px rightEar - px leftEar) = 0"
    by (simp add: atan2_zero_iff)
  then show "calculateHeadTilt landmarks = 0"
    using h by (simp add: calculateHeadTilt_ears)
qed

theorem head_tilt_zero_witness:
  "calculateHeadTilt (replicate 100 (landmark_at 0 0)) = 0 \<and>
   calculateHeadTilt (face_with_ears (landmark_at 0.3 0.5) (landmark_at 0.7 0.5)) = 0 \<and>
   calculateHeadTilt (face_with_ears (landmark_at 0.5 0.5) (landmark_at 0.5 0.5)) = 0"
proof -
  have "js_index (replicate 100 (landmark_at 0 0)) RIGHT_EAR = None"
    by (simp add: js_index_def RIGHT_EAR_def)
  then have a: "calculateHeadTilt (replicate 100 (landmark_at 0 0)) = 0"
    using head_tilt_zero [of "replicate 100 (landmark_at 0 0)"] by simp
  have b: "calculateHeadTilt (face_with_ears (landmark_at 0.3 0.5) (landmark_at 0.7 0.5)) = 0"
    using head_tilt_zero [of "face_with_ears (landmark_at 0.3 0.5) (landmark_at 0.7 0.5)"]
    by (simp add: face_with_ears_index landmark_at_def)
  have c: "calculateHeadTilt (face_with_ears (landmark_at 0.5 0.5) (landmark_at 0.5 0.5)) = 0"
    using head_tilt_zero [of "face_with_ears (landmark_at 0.5 0.5) (landmark_at 0.5 0.5)"]
    by (simp add: face_with_ears_index landmark_at_def)
  show ?thesis using a b c by simp
qed

text \<open>With both ears present, these are the only inputs with angle 0.\<close>

lemma head_tilt_zero_iff:
  assumes "js_index landmarks LEFT_EAR = Some leftEar"
    and "js_index landmarks RIGHT_EAR = Some rightEar"
  shows "calculateHeadTilt landmarks = 0 \<longleftrightarrow>
           py rightEar - py leftEar = 0 \<and> 0 \<le> px rightEar - px leftEar"
  by (simp add: calculateHeadTilt_ears [OF assms] atan2_zero_iff)

subsection \<open>The blink classifier\<close>

text \<open>
  C6, as the claim states it: an open frame at 1000 sets the open-since marker; the
  closure confirmed at 1100 comes 100 ms after it and fires nothing; the eyes are seen
  open again at 1150 and the next closure, confirmed at 1250, fires a blink. Before this
  closure the eyes had been open for at most 100 ms, between the frames at 1100 and
  1200: the marker still holds 1000, since only a fired blink clears it.
\<close>

theorem blink_fires_after_short_reopening:
  "run default_thresholds
     [(0.3, 0, 1000), (0.05, 0, 1050), (0.05, 0, 1100),
      (0.3, 0, 1150), (0.05, 0, 1200), (0.05, 0, 1250)] initial_state
   = [[], [], [], [], [], [OnBlink]]"
  by (simp add: frame_eval initial_state_def)

text \<open>
  C6, amended: if the frame callback invokes the blink callback on a frame, then the
  previous frame was not a confirmed closure and this frame is one (the transition from
  not confirmed to confirmed), at least \<open>debounceMs\<close> milliseconds lie between the last
  fired blink and this frame (the code asks for strictly more), and more than 150 ms lie
  between the time held by the open-since marker and this frame. The marker holds the
  time of the first open frame seen since the last fired blink. So when one of these
  conditions fails, the frame fires no blink.
\<close>

theorem blink_fires_only_on_confirmed_transition:
  assumes "OnBlink \<in> set (snd (classify cfg avgEAR tiltAngle now st))"
  shows "\<not> isBlinkingRef st \<and> isBlinkingRef (fst (classify cfg avgEAR tiltAngle now st)) \<and>
         debounceMs cfg \<le> now - lastBlinkTimeRef st \<and> 150 < now - eyeOpenSinceRef st"
proof -
  have "OnBlink \<in> set (blink_callbacks (snd (classify cfg avgEAR tiltAngle now st)))"
    using assms by (simp add: blink_callbacks_def)
  then have "blink_fires cfg avgEAR now st"
    by (simp add: blink_callbacks_classify split: if_splits)
  then show ?thesis
    by (simp add: blink_fields_classify blink_fires_def)
qed

theorem blink_fires_only_on_confirmed_transition_witness:
  "OnBlink \<in> set (snd (classify default_thresholds 0.05 0 1400 one_low_frame_seen)) \<and>
   \<not> isBlinkingRef one_low_frame_seen \<and>
   isBlinkingRef (fst (classify default_thresholds 0.05 0 1400 one_low_frame_seen)) \<and>
   debounceMs default_thresholds \<le> 1400 - lastBlinkTimeRef one_low_frame_seen \<and>
   150 < 1400 - eyeOpenSinceRef one_low_frame_seen"
proof -
  have "OnBlink \<in> set (snd (classify default_thresholds 0.05 0 1400 one_low_frame_seen))"
    by (simp add: frame_eval one_low_frame_seen_def initial_state_def)
  then show ?thesis
    using blink_fires_only_on_confirmed_transition
      [of default_thresholds "0.05" 0 1400 one_low_frame_seen]
    by simp
qed

text \<open>
  The exact guard: a frame fires a blink if and only if it is low, at least one low
  frame came directly before it, the previous frame was not a confirmed closure, and
  both time tests hold strictly.
\<close>

lemma blink_fires_iff:
  "OnBlink \<in> set (snd (classify cfg avgEAR tiltAngle now st)) \<longleftrightarrow>
     blink_fires cfg avgEAR now st"
proof -
  have "OnBlink \<in> set (snd (classify cfg avgEAR tiltAngle now st)) \<longleftrightarrow>
        OnBlink \<in> set (blink_callbacks (snd (classify cfg avgEAR tiltAngle now st)))"
    by (simp add: blink_callbacks_def)
  then show ?thesis
    by (simp add: blink_callbacks_classify)
qed

text \<open>
  The open-since marker is set by an open frame only while it is 0, and only a fired
  blink sets it back to 0 (lemma \<open>blink_fields_classify\<close>). Until the first open frame
  of the session it is 0, and the test compares the time of the frame with 0: two low
  frames at the very start fire a blink.
\<close>

lemma blink_fires_with_unset_marker:
  "run default_thresholds [(0.05, 0, 1000), (0.05, 0, 1050)] initial_state = [[], [OnBlink]]"
  by (simp add: frame_eval initial_state_def)

text \<open>
  C2, as the claim states it: on the openness sequence 0.3, 0.3, 0.05, 0.05, 0.3 at the
  times 1000, 1200, 1400, 1600, 1800 from the initial state, the third frame invokes no
  callback; the only blink is on the fourth frame.
\<close>

theorem blink_sequence_third_frame_silent:
  "run default_thresholds
     [(0.3, 0, 1000), (0.3, 0, 1200), (0.05, 0, 1400), (0.05, 0, 1600), (0.3, 0, 1800)]
     initial_state = [[], [], [], [OnBlink], []]"
  by (simp add: frame_eval initial_state_def)

text \<open>
  C2, amended: on the openness sequence 0.3, 0.3, 0.05, 0.05, 0.3 with threshold 0.18 and
  debounce 500, from the initial state (no blink fired yet, time counted from 0), at
  times more than 150 ms apart of which the first is later than 500, whatever the head
  angles are, exactly one blink fires, on the fourth frame, which is the second low
  frame in a row.
\<close>

theorem blink_sequence_fires_on_fourth_frame:
  assumes cfg: "blinkThreshold cfg = 0.18" "debounceMs cfg = 500"
    and times: "500 < t1" "t1 + 150 < t2" "t2 + 150 < t3" "t3 + 150 < t4" "t4 + 150 < t5"
  shows "map blink_callbacks
           (run cfg [(0.3, a1, t1), (0.3, a2, t2), (0.05, a3, t3), (0.05, a4, t4), (0.3, a5, t5)]
              initial_state) = [[], [], [], [OnBlink], []]"
proof -
  let ?s0 = initial_state
  let ?s1 = "fst (classify cfg 0.3 a1 t1 ?s0)"
  let ?s2 = "fst (classify cfg 0.3 a2 t2 ?s1)"
  let ?s3 = "fst (classify cfg 0.05 a3 t3 ?s2)"
  let ?s4 = "fst (classify cfg 0.05 a4 t4 ?s3)"
  have f0: "consecutiveLowEARRef ?s0 = 0" "\<not> isBlinkingRef ?s0" "lastBlinkTimeRef ?s0 = 0"
    "eyeOpenSinceRef ?s0 = 0"
    by (simp_all add: initial_state_def)
  have b1: "\<not> blink_fires cfg 0.3 t1 ?s0"
    by (simp add: blink_fires_def cfg)
  have f1: "consecutiveLowEARRef ?s1 = 0" "\<not> isBlinkingRef ?s1" "lastBlinkTimeRef ?s1 = 0"
    "eyeOpenSinceRef ?s1 = t1"
    using b1 f0 by (simp_all add: blink_fields_classify cfg)
  have b2: "\<not> blink_fires cfg 0.3 t2 ?s1"
    by (simp add: blink_fires_def cfg)
  have f2: "consecutiveLowEARRef ?s2 = 0" "\<not> isBlinkingRef ?s2" "lastBlinkTimeRef ?s2 = 0"
    "eyeOpenSinceRef ?s2 = t1"
    using b2 f1 times by (simp_all add: blink_fields_classify cfg)
  have b3: "\<not> blink_fires cfg 0.05 t3 ?s2"
    using f2 by (simp add: blink_fires_def)
  have f3: "consecutiveLowEARRef ?s3 = 1" "\<not> isBlinkingRef ?s3" "lastBlinkTimeRef ?s3 = 0"
    "eyeOpenSinceRef ?s3 = t1"
    using b3 f2 by (simp_all add: blink_fields_classify cfg)
  have b4: "blink_fires cfg 0.05 t4 ?s3"
    using f3 times by (simp add: blink_fires_def cfg)
  have b5: "\<not> blink_fires cfg 0.3 t5 ?s4"
    by (simp add: blink_fires_def cfg)
  show ?thesis
    using b1 b2 b3 b4 b5 by (simp add: blink_callbacks_classify)
qed

theorem blink_sequence_fires_on_fourth_frame_witness:
  "map blink_callbacks
     (run default_thresholds
        [(0.3, 0, 1000), (0.3, 20, 1200), (0.05, 20, 1400), (0.05, 20, 1600), (0.3, 20, 1800)]
        initial_state) = [[], [], [], [OnBlink], []]"
  using blink_sequence_fires_on_fourth_frame
    [of default_thresholds 1000 1200 1400 1600 1800 0 20 20 20 20]
  by (simp add: default_thresholds_def)

subsection \<open>The tilt classifier\<close>

text \<open>
  While the head has not been back to neutral since the last fired tilt, frames with a
  non-neutral direction fire nothing.
\<close>

lemma no_tilt_while_not_rearmed:
  assumes "\<not> wasNeutralRef st"
    and "\<forall>(e, a, now) \<in> set frames. detectTilt cfg a \<noteq> Neutral"
  shows "tilt_callbacks (concat (run cfg frames st)) = []"
  using assms
proof (induction frames arbitrary: st)
  case Nil
  then show ?case by (simp add: tilt_callbacks_def)
next
  case (Cons f frames)
  obtain e a now where f: "f = (e, a, now)" by (cases f)
  have nf: "\<not> tilt_fires cfg a now st"
    using Cons.prems(1) by (simp add: tilt_fires_def)
  have d: "detectTilt cfg a \<noteq> Neutral"
    using Cons.prems(2) f by simp
  have "\<not> wasNeutralRef (fst (classify cfg e a now st))"
    using nf d Cons.prems(1) by (simp add: tilt_fields_classify)
  then have "tilt_callbacks (concat (run cfg frames (fst (classify cfg e a now st)))) = []"
    using Cons.IH Cons.prems(2) by simp
  then show ?case
    using nf by (simp add: f tilt_callbacks_append tilt_callbacks_classify)
qed

text \<open>
  C3. Over any sequence of frames whose detected direction is never neutral, from any
  state and however long, the frame callback invokes a tilt callback at most once. Two
  tilt events therefore always have a neutral frame between them.
\<close>

theorem sustained_tilt_fires_at_most_once:
  assumes "\<forall>(e, a, now) \<in> set frames. detectTilt cfg a \<noteq> Neutral"
  shows "length (tilt_callbacks (concat (run cfg frames st))) \<le> 1"
  using assms
proof (induction frames arbitrary: st)
  case Nil
  then show ?case by (simp add: tilt_callbacks_def)
next
  case (Cons f frames)
  obtain e a now where f: "f = (e, a, now)" by (cases f)
  let ?st' = "fst (classify cfg e a now st)"
  have d: "detectTilt cfg a \<noteq> Neutral"
    using Cons.prems f by simp
  have rest: "\<forall>(e, a, now) \<in> set frames. detectTilt cfg a \<noteq> Neutral"
    using Cons.prems by simp
  show ?case
  proof (cases "tilt_fires cfg a now st")
    case True
    then have "\<not> wasNeutralRef ?st'"
      using d by (simp add: tilt_fields_classify)
    then have "tilt_callbacks (concat (run cfg frames ?st')) = []"
      using rest by (rule no_tilt_while_not_rearmed)
    then show ?thesis
      by (simp add: f tilt_callbacks_append tilt_callbacks_classify)
  next
    case False
    have "length (tilt_callbacks (concat (run cfg frames ?st'))) \<le> 1"
      using rest by (rule Cons.IH)
    then show ?thesis
      using False by (simp add: f tilt_callbacks_append tilt_callbacks_classify)
  qed
qed

text \<open>The twenty frames at 20 degrees fire the right tilt once.\<close>

lemma sustained_right_tilt_fires_once:
  "concat (run default_thresholds sustained_right_tilt initial_state) = [OnTiltRight]"
  by (simp add: sustained_right_tilt_def frame_eval initial_state_def)

theorem sustained_tilt_fires_at_most_once_witness:
  "length sustained_right_tilt = 20 \<and>
   list_all (\<lambda>(e, a, now). detectTilt default_thresholds a \<noteq> Neutral) sustained_right_tilt \<and>
   length (tilt_callbacks (concat (run default_thresholds sustained_right_tilt initial_state)))
     \<le> 1"
proof -
  have h: "\<forall>(e, a, now) \<in> set sustained_right_tilt. detectTilt default_thresholds a \<noteq> Neutral"
    by (simp add: sustained_right_tilt_def detectTilt_def default_thresholds_def)
  have "length (tilt_callbacks
          (concat (run default_thresholds sustained_right_tilt initial_state))) \<le> 1"
    using h by (rule sustained_tilt_fires_at_most_once)
  then show ?thesis
    using h by (simp add: list_all_iff) (simp add: sustained_right_tilt_def)
qed

text \<open>
  C1, at the failing input: from the initial state, three frames in a row at 20 degrees
  (beyond the threshold of 15) invoke no callback, leave the run-length counter at 2,
  below the 3 that confirm, and leave the displayed direction neutral.
\<close>

theorem three_tilt_frames_not_confirmed:
  "run default_thresholds [(0.3, 20, 1000), (0.3, 20, 1050), (0.3, 20, 1100)] initial_state
     = [[], [], []] \<and>
   consecutiveTiltFramesRef
     (final default_thresholds [(0.3, 20, 1000), (0.3, 20, 1050), (0.3, 20, 1100)]
        initial_state) = 2 \<and>
   headTilt
     (final default_thresholds [(0.3, 20, 1000), (0.3, 20, 1050), (0.3, 20, 1100)]
        initial_state) = Neutral"
  by (simp add: frame_eval initial_state_def)

text \<open>The fourth frame confirms the direction and fires.\<close>

lemma fourth_tilt_frame_confirms:
  "run default_thresholds
     [(0.3, 20, 1000), (0.3, 20, 1050), (0.3, 20, 1100), (0.3, 20, 1150)] initial_state
     = [[], [], [], [OnTiltRight]] \<and>
   headTilt
     (final default_thresholds
        [(0.3, 20, 1000), (0.3, 20, 1050), (0.3, 20, 1100), (0.3, 20, 1150)] initial_state)
     = TiltRight"
  by (simp add: frame_eval initial_state_def)

text \<open>
  The same for every state and every threshold: the first frame of a new direction sets
  the counter to 0, so three frames of a direction that the frame before them did not
  have reach 2 and fire nothing.
\<close>

lemma three_frames_leave_counter_at_two:
  assumes "lastTiltDirectionRef st \<noteq> d" "d \<noteq> Neutral"
    and "detectTilt cfg a1 = d" "detectTilt cfg a2 = d" "detectTilt cfg a3 = d"
  shows "consecutiveTiltFramesRef (final cfg [(e1, a1, t1), (e2, a2, t2), (e3, a3, t3)] st) = 2"
    and "tilt_callbacks (concat (run cfg [(e1, a1, t1), (e2, a2, t2), (e3, a3, t3)] st)) = []"
proof -
  let ?s1 = "fst (classify cfg e1 a1 t1 st)"
  let ?s2 = "fst (classify cfg e2 a2 t2 ?s1)"
  have c1: "consecutiveTiltFramesRef ?s1 = 0" "lastTiltDirectionRef ?s1 = d"
    using assms by (auto simp add: tilt_fields_classify)
  have c2: "consecutiveTiltFramesRef ?s2 = 1" "lastTiltDirectionRef ?s2 = d"
    using assms c1 by (simp_all add: tilt_fields_classify)
  show "consecutiveTiltFramesRef (final cfg [(e1, a1, t1), (e2, a2, t2), (e3, a3, t3)] st) = 2"
    using assms c2 by (simp add: tilt_fields_classify)
  have "\<not> tilt_fires cfg a1 t1 st" "\<not> tilt_fires cfg a2 t2 ?s1" "\<not> tilt_fires cfg a3 t3 ?s2"
    using assms c1 c2 by (auto simp add: tilt_fires_def)
  then show "tilt_callbacks (concat (run cfg [(e1, a1, t1), (e2, a2, t2), (e3, a3, t3)] st)) = []"
    by (simp add: tilt_callbacks_append tilt_callbacks_classify)
qed

text \<open>
  C4, as the claim states it: from the initial state, four frames at 20 degrees fire the
  right tilt on the fourth; then a neutral frame and exactly three more frames at 20
  degrees follow, 50 ms apart, and none of them fires.
\<close>

theorem second_tilt_not_fired_by_three_frames:
  "run default_thresholds
     [(0.3, 20, 1000), (0.3, 20, 1050), (0.3, 20, 1100), (0.3, 20, 1150),
      (0.3, 0, 1200),
      (0.3, 20, 1250), (0.3, 20, 1300), (0.3, 20, 1350)] initial_state
   = [[], [], [], [OnTiltRight], [], [], [], []]"
  by (simp add: frame_eval initial_state_def)

text \<open>
  The debounce alone also holds the second event back: with five frames at 20 degrees
  after the neutral frame the direction is confirmed again, but the last of them is only
  300 ms after the first event, and none fires.
\<close>

lemma debounce_blocks_second_tilt:
  "run default_thresholds
     [(0.3, 20, 1000), (0.3, 20, 1050), (0.3, 20, 1100), (0.3, 20, 1150),
      (0.3, 0, 1200),
      (0.3, 20, 1250), (0.3, 20, 1300), (0.3, 20, 1350), (0.3, 20, 1400), (0.3, 20, 1450)]
     initial_state
   = [[], [], [], [OnTiltRight], [], [], [], [], [], []]"
  by (simp add: frame_eval initial_state_def)

text \<open>Neutral frames arm the classifier again and leave the time of the last event.\<close>

lemma neutral_frames_rearm:
  assumes "wasNeutralRef st \<longrightarrow> \<not> hasFiredTiltRef st"
    and "neutrals \<noteq> []"
    and "\<forall>(e, a, now) \<in> set neutrals. detectTilt cfg a = Neutral"
  shows "wasNeutralRef (final cfg neutrals st) \<and> \<not> hasFiredTiltRef (final cfg neutrals st) \<and>
         lastTiltTimeRef (final cfg neutrals st) = lastTiltTimeRef st"
  using assms
proof (induction neutrals arbitrary: st)
  case Nil
  then show ?case by simp
next
  case (Cons f neutrals)
  obtain e a now where f: "f = (e, a, now)" by (cases f)
  let ?st' = "fst (classify cfg e a now st)"
  have d: "detectTilt cfg a = Neutral"
    using Cons.prems(3) f by simp
  have nf: "\<not> tilt_fires cfg a now st"
    using d by (simp add: tilt_fires_def)
  have step: "wasNeutralRef ?st'" "\<not> hasFiredTiltRef ?st'"
    "lastTiltTimeRef ?st' = lastTiltTimeRef st"
    using d nf Cons.prems(1) by (auto simp add: tilt_fields_classify)
  show ?case
  proof (cases neutrals)
    case Nil
    then show ?thesis using step by (simp add: f)
  next
    case (Cons g gs)
    have "wasNeutralRef (final cfg neutrals ?st') \<and> \<not> hasFiredTiltRef (final cfg neutrals ?st') \<and>
          lastTiltTimeRef (final cfg neutrals ?st') = lastTiltTimeRef ?st'"
      using step Cons.prems(3) Cons by (intro Cons.IH) auto
    then show ?thesis using step by (simp add: f)
  qed
qed

text \<open>Right frames on an armed classifier either fire or leave it armed.\<close>

lemma right_frames_stay_armed:
  assumes "wasNeutralRef st" "\<not> hasFiredTiltRef st"
    and "\<forall>(e, a, now) \<in> set rights. detectTilt cfg a = TiltRight"
  shows "OnTiltRight \<in> set (concat (run cfg rights st)) \<or>
         (wasNeutralRef (final cfg rights st) \<and> \<not> hasFiredTiltRef (final cfg rights st) \<and>
          lastTiltTimeRef (final cfg rights st) = lastTiltTimeRef st)"
  using assms
proof (induction rights arbitrary: st)
  case Nil
  then show ?case by simp
next
  case (Cons f rights)
  obtain e a now where f: "f = (e, a, now)" by (cases f)
  let ?st' = "fst (classify cfg e a now st)"
  have d: "detectTilt cfg a = TiltRight"
    using Cons.prems(3) f by simp
  show ?case
  proof (cases "tilt_fires cfg a now st")
    case True
    then have "OnTiltRight \<in> set (tilt_callbacks (snd (classify cfg e a now st)))"
      using d by (simp add: tilt_callbacks_classify)
    then have "OnTiltRight \<in> set (snd (classify cfg e a now st))"
      by (simp add: tilt_callbacks_def)
    then show ?thesis by (simp add: f)
  next
    case False
    then have step: "wasNeutralRef ?st'" "\<not> hasFiredTiltRef ?st'"
      "lastTiltTimeRef ?st' = lastTiltTimeRef st"
      using d Cons.prems(1,2) by (simp_all add: tilt_fields_classify)
    have "OnTiltRight \<in> set (concat (run cfg rights ?st')) \<or>
         (wasNeutralRef (final cfg rights ?st') \<and> \<not> hasFiredTiltRef (final cfg rights ?st') \<and>
          lastTiltTimeRef (final cfg rights ?st') = lastTiltTimeRef ?st')"
      using step Cons.prems(3) by (intro Cons.IH) auto
    then show ?thesis using step by (auto simp add: f)
  qed
qed

text \<open>
  C4, amended: after a frame at time \<open>t0\<close> has fired the right tilt, let at least one
  neutral frame follow, and then frames tilted right, the last of them at time \<open>t1\<close>. If
  the last frame confirms the direction (its run-length counter reaches 3) and more than
  \<open>tiltDebounceMs\<close> lie between \<open>t0\<close> and \<open>t1\<close>, then a second right-tilt event fires
  among these frames. How many right frames the confirmation takes is not part of the
  statement.
\<close>

theorem second_tilt_after_neutral:
  assumes fired: "tilt_fires cfg a0 t0 st0" "detectTilt cfg a0 = TiltRight"
    and neutrals: "neutrals \<noteq> []" "\<forall>(e, a, now) \<in> set neutrals. detectTilt cfg a = Neutral"
    and rights: "\<forall>(e, a, now) \<in> set rights. detectTilt cfg a = TiltRight"
      "detectTilt cfg a1 = TiltRight"
    and confirmed: "3 \<le> consecutiveTiltFramesRef
        (final cfg (neutrals @ rights @ [(e1, a1, t1)]) (fst (classify cfg e0 a0 t0 st0)))"
    and debounce: "tiltDebounceMs cfg < t1 - t0"
  shows "OnTiltRight \<in> set (concat
           (run cfg (neutrals @ rights @ [(e1, a1, t1)]) (fst (classify cfg e0 a0 t0 st0))))"
proof -
  let ?st = "fst (classify cfg e0 a0 t0 st0)"
  let ?s1 = "final cfg neutrals ?st"
  let ?s2 = "final cfg rights ?s1"
  have st: "\<not> wasNeutralRef ?st" "lastTiltTimeRef ?st = t0"
    using fired by (simp_all add: tilt_fields_classify)
  have s1: "wasNeutralRef ?s1" "\<not> hasFiredTiltRef ?s1" "lastTiltTimeRef ?s1 = t0"
    using neutral_frames_rearm [of ?st neutrals cfg] st neutrals by simp_all
  have split: "run cfg (neutrals @ rights @ [(e1, a1, t1)]) ?st =
      run cfg neutrals ?st @ run cfg rights ?s1 @ [snd (classify cfg e1 a1 t1 ?s2)]"
    by (simp add: run_append)
  consider (early) "OnTiltRight \<in> set (concat (run cfg rights ?s1))"
    | (armed) "wasNeutralRef ?s2" "\<not> hasFiredTiltRef ?s2" "lastTiltTimeRef ?s2 = t0"
    using right_frames_stay_armed [of ?s1 rights cfg] s1 rights(1) by auto
  then show ?thesis
  proof cases
    case early
    then show ?thesis by (simp add: split)
  next
    case armed
    have "3 \<le> consecutiveTiltFramesRef (fst (classify cfg e1 a1 t1 ?s2))"
      using confirmed by (simp add: final_append)
    then have "detectTilt cfg a1 = lastTiltDirectionRef ?s2" "2 \<le> consecutiveTiltFramesRef ?s2"
      by (simp_all add: tilt_fields_classify split: if_splits)
    then have "tilt_fires cfg a1 t1 ?s2"
      using armed rights(2) debounce by (simp add: tilt_fires_def)
    then have "OnTiltRight \<in> set (tilt_callbacks (snd (classify cfg e1 a1 t1 ?s2)))"
      using rights(2) by (simp add: tilt_callbacks_classify)
    then have "OnTiltRight \<in> set (snd (classify cfg e1 a1 t1 ?s2))"
      by (simp add: tilt_callbacks_def)
    then show ?thesis by (simp add: split)
  qed
qed

theorem second_tilt_after_neutral_witness:
  "tilt_fires default_thresholds 20 1150 right_tilt_held \<and>
   detectTilt default_thresholds 20 = TiltRight \<and>
   list_all (\<lambda>(e, a, now). detectTilt default_thresholds a = Neutral) [(0.3, 0, 1200)] \<and>
   list_all (\<lambda>(e, a, now). detectTilt default_thresholds a = TiltRight)
     [(0.3, 20, 1300), (0.3, 20, 1500), (0.3, 20, 1700)] \<and>
   tiltDebounceMs default_thresholds < 1900 - 1150 \<and>
   OnTiltRight \<in> set (concat
     (run default_thresholds
        ([(0.3, 0, 1200)] @ [(0.3, 20, 1300), (0.3, 20, 1500), (0.3, 20, 1700)] @
         [(0.3, 20, 1900)])
        (fst (classify default_thresholds 0.3 20 1150 right_tilt_held))))"
proof -
  have fired: "tilt_fires default_thresholds 20 1150 right_tilt_held"
    by (simp add: tilt_fires_def right_tilt_held_def frame_eval initial_state_def)
  have right: "detectTilt default_thresholds 20 = TiltRight"
    by (simp add: detectTilt_def default_thresholds_def)
  have neutral: "detectTilt default_thresholds 0 = Neutral"
    by (simp add: detectTilt_def default_thresholds_def)
  have confirmed: "3 \<le> consecutiveTiltFramesRef
      (final default_thresholds
         ([(0.3, 0, 1200)] @ [(0.3, 20, 1300), (0.3, 20, 1500), (0.3, 20, 1700)] @
          [(0.3, 20, 1900)])
         (fst (classify default_thresholds 0.3 20 1150 right_tilt_held)))"
    by (simp add: right_tilt_held_def frame_eval initial_state_def)
  have debounce: "tiltDebounceMs default_thresholds < 1900 - 1150"
    by (simp add: default_thresholds_def)
  have "OnTiltRight \<in> set (concat
     (run default_thresholds
        ([(0.3, 0, 1200)] @ [(0.3, 20, 1300), (0.3, 20, 1500), (0.3, 20, 1700)] @
         [(0.3, 20, 1900)])
        (fst (classify default_thresholds 0.3 20 1150 right_tilt_held))))"
    using fired right _ _ _ right confirmed debounce
    by (rule second_tilt_after_neutral) (simp_all add: right neutral)
  then show ?thesis
    using fired right neutral debounce by simp
qed

subsection \<open>The page: effects and handlers\<close>

lemma mirror_refs_idem: "mirror_refs (mirror_refs p) = mirror_refs p"
  by (simp add: mirror_refs_def)

lemma run_effects_done:
  "\<not> (3 \<le> calibrationBlinks (run_effects p) \<and> isCalibrating (run_effects p))"
  by (simp add: run_effects_def calibration_effect_def mirror_refs_def)

lemma run_effects_when_done:
  "\<not> (3 \<le> calibrationBlinks p \<and> isCalibrating p) \<Longrightarrow> run_effects p = mirror_refs p"
  by (auto simp add: run_effects_def calibration_effect_def mirror_refs_def)

text \<open>Two rounds of effects reach a state that further rounds leave alone.\<close>

lemma render_settled: "run_effects (render p) = render p"
proof -
  let ?q = "run_effects p"
  have r: "render p = mirror_refs ?q"
    unfolding render_def using run_effects_done [of p] by (rule run_effects_when_done)
  have "\<not> (3 \<le> calibrationBlinks (mirror_refs ?q) \<and> isCalibrating (mirror_refs ?q))"
    using run_effects_done [of p] by (simp add: mirror_refs_def)
  then have "run_effects (mirror_refs ?q) = mirror_refs (mirror_refs ?q)"
    by (rule run_effects_when_done)
  then show ?thesis
    by (simp add: r mirror_refs_idem)
qed

lemma render_fields:
  "currentIndex (render p) = currentIndex p"
  "isCalibrating (render p) = (isCalibrating p \<and> calibrationBlinks p < 3)"
  "isCalibrationRef (render p) = (isCalibrating p \<and> calibrationBlinks p < 3)"
  "calibrationBlinks (render p) = (if isCalibrating p \<and> 3 \<le> calibrationBlinks p then 0
     else calibrationBlinks p)"
  "detection (render p) = (if isCalibrating p \<and> 3 \<le> calibrationBlinks p
     then resetBlinkCount (detection p) else detection p)"
proof -
  let ?q = "run_effects p"
  have r: "render p = mirror_refs ?q"
    unfolding render_def using run_effects_done [of p] by (rule run_effects_when_done)
  show "currentIndex (render p) = currentIndex p"
    "isCalibrating (render p) = (isCalibrating p \<and> calibrationBlinks p < 3)"
    "isCalibrationRef (render p) = (isCalibrating p \<and> calibrationBlinks p < 3)"
    "calibrationBlinks (render p) = (if isCalibrating p \<and> 3 \<le> calibrationBlinks p then 0
       else calibrationBlinks p)"
    "detection (render p) = (if isCalibrating p \<and> 3 \<le> calibrationBlinks p
       then resetBlinkCount (detection p) else detection p)"
    unfolding r
    by (auto simp add: mirror_refs_def run_effects_def calibration_effect_def)
qed

lemma page_hook_simps:
  "fst page_hook = default_thresholds"
  "onBlink (snd page_hook) = Some handleBlink"
  "onTiltLeft (snd page_hook) = Some handleTiltRight"
  "onTiltRight (snd page_hook) = Some handleTiltLeft"
  by (simp_all add: page_hook_def useBlinkDetection_def default_thresholds_def)

lemma invoke_page_hook:
  "invoke (snd page_hook) OnBlink = handleBlink"
  "invoke (snd page_hook) OnTiltLeft = handleTiltRight"
  "invoke (snd page_hook) OnTiltRight = handleTiltLeft"
  by (rule ext, simp add: page_hook_simps optional_call_def)+

lemma handleBlink_keeps:
  "currentIndex (handleBlink p) = currentIndex p"
  "isCalibrationRef (handleBlink p) = isCalibrationRef p"
  "currentIndexRef (handleBlink p) = currentIndexRef p"
  "photosLengthRef (handleBlink p) = photosLengthRef p"
  by (simp_all add: handleBlink_def Let_def)

lemma deliver_unfold:
  "deliver hook (e, a, now) p =
     render (fold (invoke (snd hook)) (snd (classify (fst hook) e a now (detection p)))
       (p\<lparr>detection := fst (classify (fst hook) e a now (detection p))\<rparr>))"
  by (simp add: deliver_def split: prod.splits)

lemma classify_called:
  "snd (classify cfg e a now st) =
     (if blink_fires cfg e now st then [OnBlink] else []) @
     (if tilt_fires cfg a now st
      then (if detectTilt cfg a = TiltLeft then [OnTiltLeft] else [OnTiltRight]) else [])"
  by (simp add: classify_snd blinkDetection_snd headTiltDetection_snd tilt_fires_after_blink)

text \<open>The definitions that evaluate one frame delivered to a concrete page.\<close>

lemmas page_eval =
  deliver_unfold page_hook_simps optional_call_def handleBlink_def
  handleTiltRight_def handleTiltLeft_def render_def run_effects_def calibration_effect_def
  mirror_refs_def resetBlinkCount_def session_start_def

text \<open>
  C5. When a frame fires a tilt whose detected direction is left, the callback invoked
  is the hook's \<open>onTiltLeft\<close> parameter, and for the right direction its \<open>onTiltRight\<close>
  parameter. The page passes \<open>handleTiltRight\<close> as \<open>onTiltLeft\<close> and \<open>handleTiltLeft\<close> as
  \<open>onTiltRight\<close>. So on the page, outside calibration, a fired left tilt moves to the next
  photo (when there is one) and a fired right tilt to the previous photo (when there is
  one).
\<close>

theorem tilt_handlers_swapped:
  assumes "tilt_fires (fst page_hook) a now (detection p)"
  shows "(detectTilt (fst page_hook) a = TiltLeft \<longrightarrow>
            tilt_callbacks (snd (classify (fst page_hook) e a now (detection p))) = [OnTiltLeft] \<and>
            invoke (snd page_hook) OnTiltLeft = handleTiltRight \<and>
            (\<not> isCalibrationRef p \<and> currentIndexRef p < photosLengthRef p - 1 \<longrightarrow>
               currentIndex (deliver page_hook (e, a, now) p) = currentIndex p + 1)) \<and>
         (detectTilt (fst page_hook) a = TiltRight \<longrightarrow>
            tilt_callbacks (snd (classify (fst page_hook) e a now (detection p))) = [OnTiltRight] \<and>
            invoke (snd page_hook) OnTiltRight = handleTiltLeft \<and>
            (\<not> isCalibrationRef p \<and> 0 < currentIndexRef p \<longrightarrow>
               currentIndex (deliver page_hook (e, a, now) p) = currentIndex p - 1))"
proof (intro conjI impI)
  assume "detectTilt (fst page_hook) a = TiltLeft"
  then show "tilt_callbacks (snd (classify (fst page_hook) e a now (detection p))) = [OnTiltLeft]"
    using assms by (simp add: tilt_callbacks_classify)
next
  show "invoke (snd page_hook) OnTiltLeft = handleTiltRight"
    by (rule invoke_page_hook)
next
  assume d: "detectTilt (fst page_hook) a = TiltLeft"
    and g: "\<not> isCalibrationRef p \<and> currentIndexRef p < photosLengthRef p - 1"
  show "currentIndex (deliver page_hook (e, a, now) p) = currentIndex p + 1"
    using assms d g
    by (simp add: deliver_unfold classify_called invoke_page_hook render_fields handleBlink_keeps
        handleTiltRight_def Let_def)
next
  assume "detectTilt (fst page_hook) a = TiltRight"
  then show "tilt_callbacks (snd (classify (fst page_hook) e a now (detection p))) = [OnTiltRight]"
    using assms by (simp add: tilt_callbacks_classify)
next
  show "invoke (snd page_hook) OnTiltRight = handleTiltLeft"
    by (rule invoke_page_hook)
next
  assume d: "detectTilt (fst page_hook) a = TiltRight"
    and g: "\<not> isCalibrationRef p \<and> 0 < currentIndexRef p"
  show "currentIndex (deliver page_hook (e, a, now) p) = currentIndex p - 1"
    using assms d g
    by (simp add: deliver_unfold classify_called invoke_page_hook render_fields handleBlink_keeps
        handleTiltLeft_def Let_def)
qed

theorem tilt_handlers_swapped_witness:
  "tilt_fires (fst page_hook) (-20) 1150 (detection (reviewing left_tilt_held)) \<and>
   detectTilt (fst page_hook) (-20) = TiltLeft \<and>
   currentIndex (reviewing left_tilt_held) = 1 \<and>
   currentIndex (deliver page_hook (0.3, -20, 1150) (reviewing left_tilt_held)) = 2 \<and>
   tilt_fires (fst page_hook) 20 1150 (detection (reviewing right_tilt_held)) \<and>
   detectTilt (fst page_hook) 20 = TiltRight \<and>
   currentIndex (deliver page_hook (0.3, 20, 1150) (reviewing right_tilt_held)) = 0"
proof -
  have l: "tilt_fires (fst page_hook) (-20) 1150 (detection (reviewing left_tilt_held))"
    by (simp add: page_hook_simps reviewing_def left_tilt_held_def tilt_fires_def frame_eval
        initial_state_def)
  have r: "tilt_fires (fst page_hook) 20 1150 (detection (reviewing right_tilt_held))"
    by (simp add: page_hook_simps reviewing_def right_tilt_held_def tilt_fires_def frame_eval
        initial_state_def)
  have d: "detectTilt (fst page_hook) (-20) = TiltLeft" "detectTilt (fst page_hook) 20 = TiltRight"
    by (simp_all add: page_hook_simps detectTilt_def default_thresholds_def)
  have g: "\<not> isCalibrationRef (reviewing st)" "currentIndexRef (reviewing st) = 1"
    "photosLengthRef (reviewing st) = 5" "currentIndex (reviewing st) = 1" for st
    by (simp_all add: reviewing_def session_start_def)
  show ?thesis
    using l r d
      tilt_handlers_swapped [OF l, of "0.3"] tilt_handlers_swapped [OF r, of "0.3"]
    by (simp add: g)
qed

subsection \<open>Calibration\<close>

text \<open>During calibration a frame that fires a blink only adds one to the count.\<close>

lemma calibrating_callbacks:
  assumes "isCalibrationRef p" and "blink_fires cfg e now st"
  shows "fold (invoke (snd page_hook)) (snd (classify cfg e a now st)) p =
           p\<lparr>calibrationBlinks := calibrationBlinks p + 1\<rparr>"
  using assms
  by (simp add: classify_called invoke_page_hook handleBlink_def handleTiltRight_def
      handleTiltLeft_def)

lemma two_blinks_counted_reached:
  "deliver_all page_hook calibration_frames (session_start Demo []) = two_blinks_counted"
  by (simp add: two_blinks_counted_def calibration_frames_def page_eval frame_eval
      initial_state_def)

text \<open>
  C7, as the claim states it: the frame at time 2600 fires the third blink of the
  calibration. Afterwards calibration is inactive, its count is 0 and the hook's
  \<open>blinkCount\<close> is 0, but the classifier's consecutive-low counter is 2, its confirmed
  flag is set and the time of its last blink is 2600: they are not reset.
\<close>

theorem calibration_keeps_classifier_refs:
  "\<not> isCalibrating (deliver page_hook (0.05, 0, 2600) two_blinks_counted) \<and>
   calibrationBlinks (deliver page_hook (0.05, 0, 2600) two_blinks_counted) = 0 \<and>
   blinkCount (detection (deliver page_hook (0.05, 0, 2600) two_blinks_counted)) = 0 \<and>
   consecutiveLowEARRef (detection (deliver page_hook (0.05, 0, 2600) two_blinks_counted)) = 2 \<and>
   isBlinkingRef (detection (deliver page_hook (0.05, 0, 2600) two_blinks_counted)) \<and>
   lastBlinkTimeRef (detection (deliver page_hook (0.05, 0, 2600) two_blinks_counted)) = 2600"
  by (simp add: two_blinks_counted_def page_eval frame_eval initial_state_def)

text \<open>
  C7, amended: while calibration is active, a frame that fires a blink when fewer than
  two blinks are counted adds one to the count and leaves calibration active; the frame
  that fires the third blink makes calibration inactive (the flag and its mirror ref
  clear), sets the calibration count to 0 and sets the hook's \<open>blinkCount\<close> to 0. The
  hook's state is otherwise what the frame left: the refs of the blink classifier are
  not reset.
\<close>

theorem calibration_completes_on_third_blink:
  assumes "isCalibrating p" "isCalibrationRef p"
    and "blink_fires (fst page_hook) e now (detection p)"
  shows "(calibrationBlinks p < 2 \<longrightarrow>
            isCalibrating (deliver page_hook (e, a, now) p) \<and>
            isCalibrationRef (deliver page_hook (e, a, now) p) \<and>
            calibrationBlinks (deliver page_hook (e, a, now) p) = calibrationBlinks p + 1 \<and>
            detection (deliver page_hook (e, a, now) p) =
              fst (classify (fst page_hook) e a now (detection p))) \<and>
         (calibrationBlinks p = 2 \<longrightarrow>
            \<not> isCalibrating (deliver page_hook (e, a, now) p) \<and>
            \<not> isCalibrationRef (deliver page_hook (e, a, now) p) \<and>
            calibrationBlinks (deliver page_hook (e, a, now) p) = 0 \<and>
            detection (deliver page_hook (e, a, now) p) =
              (fst (classify (fst page_hook) e a now (detection p)))\<lparr>blinkCount := 0\<rparr>)"
proof -
  let ?st' = "fst (classify (fst page_hook) e a now (detection p))"
  have "deliver page_hook (e, a, now) p =
          render (p\<lparr>detection := ?st', calibrationBlinks := calibrationBlinks p + 1\<rparr>)"
    using assms(2,3) by (simp add: deliver_unfold calibrating_callbacks)
  then show ?thesis
    using assms(1) by (simp add: render_fields resetBlinkCount_def)
qed

theorem calibration_completes_on_third_blink_witness:
  "isCalibrating two_blinks_counted \<and> isCalibrationRef two_blinks_counted \<and>
   calibrationBlinks two_blinks_counted = 2 \<and>
   blink_fires (fst page_hook) 0.05 2600 (detection two_blinks_counted) \<and>
   \<not> isCalibrating (deliver page_hook (0.05, 0, 2600) two_blinks_counted) \<and>
   \<not> isCalibrationRef (deliver page_hook (0.05, 0, 2600) two_blinks_counted) \<and>
   calibrationBlinks (deliver page_hook (0.05, 0, 2600) two_blinks_counted) = 0 \<and>
   detection (deliver page_hook (0.05, 0, 2600) two_blinks_counted) =
     (fst (classify (fst page_hook) 0.05 0 2600 (detection two_blinks_counted)))
       \<lparr>blinkCount := 0\<rparr> \<and>
   isCalibrating first_blink_pending \<and> isCalibrationRef first_blink_pending \<and>
   calibrationBlinks first_blink_pending = 0 \<and>
   blink_fires (fst page_hook) 0.05 1400 (detection first_blink_pending) \<and>
   isCalibrating (deliver page_hook (0.05, 0, 1400) first_blink_pending) \<and>
   calibrationBlinks (deliver page_hook (0.05, 0, 1400) first_blink_pending) = 1"
proof -
  have h: "isCalibrating two_blinks_counted" "isCalibrationRef two_blinks_counted"
    "calibrationBlinks two_blinks_counted = 2"
    by (simp_all add: two_blinks_counted_def session_start_def)
  have b: "blink_fires (fst page_hook) 0.05 2600 (detection two_blinks_counted)"
    by (simp add: two_blinks_counted_def blink_fires_def page_hook_simps default_thresholds_def
        initial_state_def)
  have h': "isCalibrating first_blink_pending" "isCalibrationRef first_blink_pending"
    "calibrationBlinks first_blink_pending = 0"
    by (simp_all add: first_blink_pending_def session_start_def)
  have b': "blink_fires (fst page_hook) 0.05 1400 (detection first_blink_pending)"
    by (simp add: first_blink_pending_def one_low_frame_seen_def blink_fires_def
        page_hook_simps default_thresholds_def initial_state_def)
  show ?thesis
    using h b h' b'
      calibration_completes_on_third_blink [OF h(1) h(2) b, of 0]
      calibration_completes_on_third_blink [OF h'(1) h'(2) b', of 0]
    by simp
qed

end
